theory Spec2Isabelle
  imports Complex_Main
begin

section \<open>Tensors and the tensor primitives used by \<^verbatim>\<open>tflearn/objectives.py\<close>\<close>

text \<open>
  A tensor is its shape together with its elements in row-major order, so that the last
  axis varies fastest. Elements are real numbers: the arithmetic of the objectives is
  followed exactly, and rounding is left out. Real numbers have no infinity and no NaN, so
  wherever the floating-point program would divide by zero (or take the logarithm of a
  number that is not positive) the model stops with \<open>Non_Finite\<close> instead of going on.

  Shape errors are raised while the graph is built, before any value is computed; they are
  \<open>Invalid_Rank\<close> (an axis that the operand does not have, or a primitive that insists on
  rank 2). Operands of unequal shapes are either broadcast or rejected by the runtime;
  this development follows neither and reports \<open>Unequal_Shapes\<close> for all of them.
\<close>

datatype fault = Invalid_Rank | Unequal_Shapes | Non_Finite

record tensor =
  shape :: "nat list"
  elems :: "real list"

definition wf_tensor :: "tensor \<Rightarrow> bool" where
  "wf_tensor t = (length (elems t) = prod_list (shape t))"

text \<open>Elementwise primitives: \<^verbatim>\<open>a - b\<close>, \<^verbatim>\<open>a * b\<close>, \<^verbatim>\<open>tf.square\<close>, \<^verbatim>\<open>-a\<close>, and the two
  operations with a Python scalar, \<^verbatim>\<open>c - a\<close> and \<^verbatim>\<open>tf.maximum(a, c)\<close>.\<close>

definition tsub :: "tensor \<Rightarrow> tensor \<Rightarrow> tensor" where
  "tsub a b = \<lparr>shape = shape a, elems = map2 (\<lambda>x y. x - y) (elems a) (elems b)\<rparr>"

definition tmul :: "tensor \<Rightarrow> tensor \<Rightarrow> tensor" where
  "tmul a b = \<lparr>shape = shape a, elems = map2 (\<lambda>x y. x * y) (elems a) (elems b)\<rparr>"

definition square :: "tensor \<Rightarrow> tensor" where
  "square a = \<lparr>shape = shape a, elems = map (\<lambda>x. x * x) (elems a)\<rparr>"

definition tneg :: "tensor \<Rightarrow> tensor" where
  "tneg a = \<lparr>shape = shape a, elems = map (\<lambda>x. - x) (elems a)\<rparr>"

definition scalar_sub :: "real \<Rightarrow> tensor \<Rightarrow> tensor" where
  "scalar_sub c a = \<lparr>shape = shape a, elems = map (\<lambda>x. c - x) (elems a)\<rparr>"

definition maximum :: "tensor \<Rightarrow> real \<Rightarrow> tensor" where
  "maximum a c = \<lparr>shape = shape a, elems = map (\<lambda>x. max x c) (elems a)\<rparr>"

text \<open>\<^verbatim>\<open>tf.reduce_mean\<close> without reduction indices: the sum of all elements divided by their
  number, a rank-0 tensor, here the number itself. A tensor with no element has the mean
  0/0.\<close>

definition reduce_mean :: "tensor \<Rightarrow> fault + real" where
  "reduce_mean a =
     (if elems a = [] then Inl Non_Finite
      else Inr (sum_list (elems a) / real (length (elems a))))"

section \<open>Mean square and hinge loss\<close>

text \<open>\<^verbatim>\<open>return tf.reduce_mean(tf.square(y_pred - y_true))\<close>\<close>

definition mean_square :: "tensor \<Rightarrow> tensor \<Rightarrow> fault + real" where
  "mean_square y_pred y_true =
     (if shape y_pred \<noteq> shape y_true then Inl Unequal_Shapes
      else reduce_mean (square (tsub y_pred y_true)))"

text \<open>\<^verbatim>\<open>return tf.reduce_mean(tf.maximum(1. - y_true * y_pred, 0.))\<close>\<close>

definition hinge_loss :: "tensor \<Rightarrow> tensor \<Rightarrow> fault + real" where
  "hinge_loss y_pred y_true =
     (if shape y_pred \<noteq> shape y_true then Inl Unequal_Shapes
      else reduce_mean (maximum (scalar_sub 1 (tmul y_true y_pred)) 0))"

section \<open>Binary cross-entropy\<close>

text \<open>\<^verbatim>\<open>tf.nn.sigmoid_cross_entropy_with_logits\<close> is a primitive of the tensor library. The
  docstring of \<^verbatim>\<open>binary_crossentropy\<close> gives what it computes for logits \<open>x\<close> and targets
  \<open>z\<close>: \<^verbatim>\<open>max(x, 0) - x * z + log(1 + exp(-abs(x)))\<close>, elementwise. The argument of the
  logarithm is above 1, so no element is non-finite.\<close>

definition sigmoid_cross_entropy_with_logits :: "tensor \<Rightarrow> tensor \<Rightarrow> tensor" where
  "sigmoid_cross_entropy_with_logits logits targets =
     \<lparr>shape = shape logits,
      elems = map2 (\<lambda>x z. max x 0 - x * z + ln (1 + exp (- \<bar>x\<bar>)))
                (elems logits) (elems targets)\<rparr>"

text \<open>\<^verbatim>\<open>return tf.reduce_mean(tf.nn.sigmoid_cross_entropy_with_logits(y_pred, y_true))\<close>\<close>

definition binary_crossentropy :: "tensor \<Rightarrow> tensor \<Rightarrow> fault + real" where
  "binary_crossentropy y_pred y_true =
     (if shape y_pred \<noteq> shape y_true then Inl Unequal_Shapes
      else reduce_mean (sigmoid_cross_entropy_with_logits y_pred y_true))"

section \<open>Categorical cross-entropy\<close>

text \<open>The rows of a tensor of rank at least 1 are its slices along the last axis: with
  shape \<open>d @ [n]\<close> there are \<open>prod_list d\<close> of them, each \<open>n\<close> consecutive elements.\<close>

fun chunks :: "nat \<Rightarrow> nat \<Rightarrow> 'a list \<Rightarrow> 'a list list" where
  "chunks n 0 xs = []"
| "chunks n (Suc k) xs = take n xs # chunks n k (drop n xs)"

definition rows :: "tensor \<Rightarrow> real list list" where
  "rows a = chunks (last (shape a)) (prod_list (butlast (shape a))) (elems a)"

text \<open>\<^verbatim>\<open>tf.reduce_sum(a, reduction_indices=len(a.get_shape())-1, keep_dims=k)\<close>: the sum of
  every row; the last axis is kept with length 1 when \<open>k\<close> holds and dropped otherwise.\<close>

definition reduce_sum_last :: "tensor \<Rightarrow> bool \<Rightarrow> tensor" where
  "reduce_sum_last a keep_dims =
     \<lparr>shape = butlast (shape a) @ (if keep_dims then [1] else []),
      elems = map sum_list (rows a)\<rparr>"

text \<open>\<^verbatim>\<open>a / s\<close> where \<open>s\<close> has the shape of \<open>a\<close> with the last axis of length 1: the one
  element of each row of \<open>s\<close> is broadcast along the row of \<open>a\<close>. Dividing an element by
  zero is non-finite.\<close>

definition divide_rows :: "tensor \<Rightarrow> tensor \<Rightarrow> fault + tensor" where
  "divide_rows a s =
     (if list_ex (\<lambda>(r, d). r \<noteq> [] \<and> d = 0) (zip (rows a) (elems s)) then Inl Non_Finite
      else Inr \<lparr>shape = shape a,
                elems = concat (map2 (\<lambda>r d. map (\<lambda>x. x / d) r) (rows a) (elems s))\<rparr>)"

text \<open>\<^verbatim>\<open>tf.clip_by_value(a, lo, hi)\<close> takes the minimum with \<open>hi\<close> first and the maximum with
  \<open>lo\<close> after it.\<close>

definition clip_by_value :: "tensor \<Rightarrow> real \<Rightarrow> real \<Rightarrow> tensor" where
  "clip_by_value a clip_value_min clip_value_max =
     \<lparr>shape = shape a,
      elems = map (\<lambda>x. max (min x clip_value_max) clip_value_min) (elems a)\<rparr>"

definition tlog :: "tensor \<Rightarrow> fault + tensor" where
  "tlog a =
     (if list_ex (\<lambda>x. x \<le> 0) (elems a) then Inl Non_Finite
      else Inr \<lparr>shape = shape a, elems = map ln (elems a)\<rparr>)"

definition bind_fault :: "fault + 'a \<Rightarrow> ('a \<Rightarrow> fault + 'b) \<Rightarrow> fault + 'b" where
  "bind_fault m f = (case m of Inl e \<Rightarrow> Inl e | Inr x \<Rightarrow> f x)"

text \<open>The body of \<^verbatim>\<open>categorical_crossentropy\<close>, statement by statement. \<^verbatim>\<open>_EPSILON\<close> comes
  from \<^verbatim>\<open>tflearn/config.py\<close> and is the parameter \<open>epsilon\<close> here; the casts to
  \<^verbatim>\<open>_FLOATX\<close> round, and are left out with all rounding. A rank-0 \<^verbatim>\<open>y_pred\<close> has no axis
  \<open>len(shape) - 1\<close>.\<close>

definition categorical_crossentropy :: "real \<Rightarrow> tensor \<Rightarrow> tensor \<Rightarrow> fault + real" where
  "categorical_crossentropy epsilon y_pred y_true =
     (if shape y_pred = [] then Inl Invalid_Rank
      else if shape y_pred \<noteq> shape y_true then Inl Unequal_Shapes
      else
        bind_fault (divide_rows y_pred (reduce_sum_last y_pred True)) (\<lambda>y_pred1.
        bind_fault (tlog (clip_by_value y_pred1 epsilon (1 - epsilon))) (\<lambda>log_pred.
        reduce_mean (tneg (reduce_sum_last (tmul y_true log_pred) False)))))"

text \<open>The four steps as the specification words them, row by row: divide by the row's
  sum, clip into the interval, sum the products with the logarithm and negate, and average
  over the rows.\<close>

definition clip_into :: "real \<Rightarrow> real \<Rightarrow> real \<Rightarrow> real" where
  "clip_into lo hi x = (if x < lo then lo else if hi < x then hi else x)"

definition row_crossentropy :: "real \<Rightarrow> real list \<Rightarrow> real list \<Rightarrow> real" where
  "row_crossentropy epsilon p t =
     - (\<Sum>j<length p. t ! j * ln (clip_into epsilon (1 - epsilon) (p ! j / sum_list p)))"

definition four_step_crossentropy :: "real \<Rightarrow> tensor \<Rightarrow> tensor \<Rightarrow> fault + real" where
  "four_step_crossentropy epsilon y_pred y_true =
     (let k = prod_list (butlast (shape y_pred)) in
      if list_ex (\<lambda>r. r \<noteq> [] \<and> sum_list r = 0) (rows y_pred) \<or> k = 0 then Inl Non_Finite
      else Inr ((\<Sum>i<k. row_crossentropy epsilon (rows y_pred ! i) (rows y_true ! i))
                / real k))"

text \<open>What the claim about the sign of the loss asks of its arguments.\<close>

definition valid_distribution :: "tensor \<Rightarrow> bool" where
  "valid_distribution p =
     (list_all (\<lambda>x. 0 \<le> x) (elems p) \<and> list_all (\<lambda>r. sum_list r = 1) (rows p))"

definition nonnegative :: "tensor \<Rightarrow> bool" where
  "nonnegative t = list_all (\<lambda>x. 0 \<le> x) (elems t)"

section \<open>Softmax cross-entropy\<close>

text \<open>\<^verbatim>\<open>tf.nn.softmax_cross_entropy_with_logits\<close> is a primitive of the tensor library. It
  takes logits and labels of one shape \<^verbatim>\<open>[batch_size, num_classes]\<close> and gives one loss
  per row, computed without forming the softmax: the row's maximum is subtracted from the
  logits, and the loss is the sum of \<open>label * (log (sum (exp shifted)) - shifted)\<close>.\<close>

definition xent_row :: "real list \<Rightarrow> real list \<Rightarrow> real" where
  "xent_row logits labels =
     (if logits = [] then 0
      else
        let max_logit = fold max (tl logits) (hd logits);
            shifted = map (\<lambda>x. x - max_logit) logits;
            log_sum = ln (sum_list (map exp shifted))
        in sum_list (map2 (\<lambda>l s. l * (log_sum - s)) labels shifted))"

definition softmax_cross_entropy_with_logits :: "tensor \<Rightarrow> tensor \<Rightarrow> tensor" where
  "softmax_cross_entropy_with_logits logits labels =
     \<lparr>shape = butlast (shape logits),
      elems = map2 xent_row (rows logits) (rows labels)\<rparr>"

text \<open>\<^verbatim>\<open>return tf.reduce_mean(tf.nn.softmax_cross_entropy_with_logits(y_pred, y_true))\<close>\<close>

definition softmax_categorical_crossentropy :: "tensor \<Rightarrow> tensor \<Rightarrow> fault + real" where
  "softmax_categorical_crossentropy y_pred y_true =
     (if length (shape y_pred) \<noteq> 2 then Inl Invalid_Rank
      else if shape y_pred \<noteq> shape y_true then Inl Unequal_Shapes
      else reduce_mean (softmax_cross_entropy_with_logits y_pred y_true))"

text \<open>The naive composition of the specification: the softmax of a row, the logarithm of
  each of its entries, the negated sum of the products with the labels, and the mean over
  the batch.\<close>

definition softmax :: "real list \<Rightarrow> real list" where
  "softmax xs = map (\<lambda>x. exp x / sum_list (map exp xs)) xs"

definition naive_row :: "real list \<Rightarrow> real list \<Rightarrow> real" where
  "naive_row logits labels = - (\<Sum>j<length logits. labels ! j * ln (softmax logits ! j))"

definition naive_softmax_crossentropy :: "tensor \<Rightarrow> tensor \<Rightarrow> fault + real" where
  "naive_softmax_crossentropy y_pred y_true =
     (let batch = hd (shape y_pred) in
      if batch = 0 then Inl Non_Finite
      else Inr ((\<Sum>i<batch. naive_row (rows y_pred ! i) (rows y_true ! i)) / real batch))"

section \<open>Lookup of an objective by name\<close>

text \<open>The objects that the names of the module are bound to: a function defined by a
  \<^verbatim>\<open>def\<close> of \<^verbatim>\<open>objectives.py\<close>, an imported module, and an object imported from a
  module by name.\<close>

datatype py_object =
    Function string
  | Module string
  | From_Import string string

text \<open>\<^verbatim>\<open>globals()\<close> at the call in \<^verbatim>\<open>get\<close>: the symbol table of the module once it is
  loaded. The bindings made by the statements of \<^verbatim>\<open>objectives.py\<close> are listed; the
  entries that the interpreter puts into every module before it runs (such as
  \<^verbatim>\<open>__name__\<close>) are the parameter \<open>preset\<close>, and a statement of the module overrides
  them.\<close>

definition objective_names :: "string list" where
  "objective_names =
     [''softmax_categorical_crossentropy'', ''categorical_crossentropy'',
      ''binary_crossentropy'', ''mean_square'', ''hinge_loss'']"

definition module_globals :: "(string \<rightharpoonup> py_object) \<Rightarrow> (string \<rightharpoonup> py_object)" where
  "module_globals preset =
     preset ++ map_of
       ([(''division'', From_Import ''__future__'' ''division''),
         (''print_function'', From_Import ''__future__'' ''print_function''),
         (''absolute_import'', From_Import ''__future__'' ''absolute_import''),
         (''tf'', Module ''tensorflow''),
         (''_EPSILON'', From_Import ''.config'' ''_EPSILON''),
         (''_FLOATX'', From_Import ''.config'' ''_FLOATX''),
         (''get_from_module'', From_Import ''.utils'' ''get_from_module''),
         (''get'', Function ''get'')]
        @ map (\<lambda>n. (n, Function n)) objective_names)"

datatype py_identifier = Name string | Callable py_object

datatype lookup_error = Not_Found string string

text \<open>Modelled from the spec: \<^verbatim>\<open>get_from_module\<close> of \<^verbatim>\<open>tflearn/utils.py\<close>, which is not
  among the sources. The specification describes it as resolving a name from a namespace:
  a string is looked up in the symbol table it is given, and an unknown name fails with
  an error that names the category and the identifier; an identifier that is already
  callable is passed through.\<close>

definition get_from_module ::
  "py_identifier \<Rightarrow> (string \<rightharpoonup> py_object) \<Rightarrow> string \<Rightarrow> lookup_error + py_object" where
  "get_from_module ident module_params module_name =
     (case ident of
        Name s \<Rightarrow>
          (case module_params s of
             None \<Rightarrow> Inl (Not_Found module_name s)
           | Some res \<Rightarrow> Inr res)
      | Callable f \<Rightarrow> Inr f)"

text \<open>\<^verbatim>\<open>return get_from_module(identifier, globals(), 'objective')\<close>\<close>

definition get :: "(string \<rightharpoonup> py_object) \<Rightarrow> py_identifier \<Rightarrow> lookup_error + py_object" where
  "get preset ident = get_from_module ident (module_globals preset) ''objective''"

section \<open>Facts about the primitives\<close>

lemma reduce_mean_nonneg:
  assumes "elems a \<noteq> []" and "list_all (\<lambda>x. 0 \<le> x) (elems a)"
  shows "\<exists>v. reduce_mean a = Inr v \<and> 0 \<le> v"
proof -
  have "0 \<le> sum_list (elems a)"
    using assms(2) by (simp add: sum_list_nonneg list_all_iff)
  then show ?thesis
    using assms(1) by (simp add: reduce_mean_def)
qed

lemma sum_list_map2_nth:
  assumes "length xs = length ys"
  shows "sum_list (map2 f xs ys) = (\<Sum>i<length xs. f (xs ! i) (ys ! i))"
proof -
  have "sum_list (map2 f xs ys) = (\<Sum>i<length (map2 f xs ys). map2 f xs ys ! i)"
    by (simp only: sum_list_sum_nth atLeast0LessThan)
  also have "\<dots> = (\<Sum>i<length xs. f (xs ! i) (ys ! i))"
    using assms by (intro sum.cong) auto
  finally show ?thesis .
qed

lemma reduce_mean_eq:
  assumes "length (elems a) = n" and "sum_list (elems a) = s"
  shows "reduce_mean a = (if n = 0 then Inl Non_Finite else Inr (s / real n))"
  using assms by (auto simp: reduce_mean_def)

lemma same_shape_length:
  "shape a = shape b \<Longrightarrow> wf_tensor a \<Longrightarrow> wf_tensor b \<Longrightarrow> length (elems a) = length (elems b)"
  by (simp add: wf_tensor_def)

section \<open>Mean square\<close>

text \<open>Claim C7, as amended: for every tensor \<open>a\<close> that has at least one element,
  \<^verbatim>\<open>mean_square(a, a)\<close> returns 0.\<close>

theorem mean_square_self:
  "elems a \<noteq> [] \<Longrightarrow> mean_square a a = Inr 0"
proof -
  assume ne: "elems a \<noteq> []"
  have "elems (square (tsub a a)) = map (\<lambda>x. 0) (elems a)"
    by (simp add: square_def tsub_def zip_same_conv_map)
  moreover have "sum_list (map (\<lambda>x. 0::real) (elems a)) = 0"
    by simp
  ultimately show ?thesis
    using ne by (simp add: mean_square_def reduce_mean_def)
qed

text \<open>The scenario of the specification, \<^verbatim>\<open>mean_square([[1.0, 2.0]], [[1.0, 2.0]])\<close>.\<close>

theorem mean_square_self_witness:
  "elems \<lparr>shape = [1, 2], elems = [1, 2]\<rparr> \<noteq> [] \<and>
   mean_square \<lparr>shape = [1, 2], elems = [1, 2]\<rparr> \<lparr>shape = [1, 2], elems = [1, 2]\<rparr> = Inr 0"
  using mean_square_self [of "\<lparr>shape = [1, 2], elems = [1, 2]\<rparr>"] by simp

text \<open>Claim C7 as stated fails for a tensor without elements, such as an empty batch of
  shape \<^verbatim>\<open>[0, 2]\<close>: the mean divides by the number of elements, and the result is not 0.\<close>

theorem mean_square_self_empty:
  "mean_square \<lparr>shape = [0, 2], elems = []\<rparr> \<lparr>shape = [0, 2], elems = []\<rparr> = Inl Non_Finite \<and>
   mean_square \<lparr>shape = [0, 2], elems = []\<rparr> \<lparr>shape = [0, 2], elems = []\<rparr> \<noteq> Inr 0"
  by (simp add: mean_square_def reduce_mean_def square_def tsub_def)

text \<open>Claim C10, as amended: for every pair of tensors of one shape that have at least one
  element, \<^verbatim>\<open>mean_square(y_pred, y_true)\<close> returns a scalar that is at least 0.\<close>

theorem mean_square_nonneg:
  assumes "shape y_pred = shape y_true" and "wf_tensor y_pred" and "wf_tensor y_true"
    and "elems y_pred \<noteq> []"
  shows "\<exists>v. mean_square y_pred y_true = Inr v \<and> 0 \<le> v"
proof -
  let ?d = "square (tsub y_pred y_true)"
  have len: "length (elems y_pred) = length (elems y_true)"
    using assms(1-3) by (rule same_shape_length)
  have "length (elems ?d) = length (elems y_pred)"
    using len by (simp add: square_def tsub_def)
  then have ne: "elems ?d \<noteq> []"
    using assms(4) by auto
  have "list_all (\<lambda>x. 0 \<le> x) (elems ?d)"
    by (simp add: square_def tsub_def list_all_iff)
  with ne have "\<exists>v. reduce_mean ?d = Inr v \<and> 0 \<le> v"
    by (rule reduce_mean_nonneg)
  then show ?thesis
    using assms(1) by (simp add: mean_square_def)
qed

theorem mean_square_nonneg_witness:
  "shape \<lparr>shape = [1, 2], elems = [3, 1]\<rparr> = shape \<lparr>shape = [1, 2], elems = [1, 2]\<rparr> \<and>
   wf_tensor \<lparr>shape = [1, 2], elems = [3, 1]\<rparr> \<and> wf_tensor \<lparr>shape = [1, 2], elems = [1, 2]\<rparr> \<and>
   elems \<lparr>shape = [1, 2], elems = [3, 1]\<rparr> \<noteq> [] \<and>
   (\<exists>v. mean_square \<lparr>shape = [1, 2], elems = [3, 1]\<rparr> \<lparr>shape = [1, 2], elems = [1, 2]\<rparr> = Inr v
        \<and> 0 \<le> v)"
  using mean_square_nonneg [of "\<lparr>shape = [1, 2], elems = [3, 1]\<rparr>" "\<lparr>shape = [1, 2], elems = [1, 2]\<rparr>"]
  by (simp add: wf_tensor_def)

text \<open>Claim C10 as stated fails for a pair of tensors of shape \<^verbatim>\<open>[0, 3]\<close>: no scalar is
  returned that could be compared with 0.\<close>

theorem mean_square_empty_not_nonneg:
  "shape \<lparr>shape = [0, 3], elems = []\<rparr> = shape \<lparr>shape = [0, 3], elems = []\<rparr> \<and>
   wf_tensor \<lparr>shape = [0, 3], elems = []\<rparr> \<and>
   mean_square \<lparr>shape = [0, 3], elems = []\<rparr> \<lparr>shape = [0, 3], elems = []\<rparr> = Inl Non_Finite"
  by (simp add: mean_square_def reduce_mean_def square_def tsub_def wf_tensor_def)

section \<open>Hinge loss\<close>

text \<open>Claim C5: for every pair of tensors of one shape, \<^verbatim>\<open>hinge_loss(y_pred, y_true)\<close> is the
  mean over all elements of \<open>max (1 - y_true * y_pred) 0\<close>, that is their sum over all
  indices divided by the number of elements (non-finite when there is none); and
  \<^verbatim>\<open>hinge_loss([[0.5]], [[1.0]])\<close> returns 0.5.\<close>

theorem hinge_loss_formula:
  "(shape y_pred = shape y_true \<longrightarrow> wf_tensor y_pred \<longrightarrow> wf_tensor y_true \<longrightarrow>
      hinge_loss y_pred y_true =
        (let n = prod_list (shape y_pred) in
         if n = 0 then Inl Non_Finite
         else Inr ((\<Sum>i<n. max (1 - elems y_true ! i * elems y_pred ! i) 0) / real n)))
   \<and> hinge_loss \<lparr>shape = [1, 1], elems = [1/2]\<rparr> \<lparr>shape = [1, 1], elems = [1]\<rparr> = Inr (1/2)"
proof (intro conjI impI)
  assume sh: "shape y_pred = shape y_true" and wp: "wf_tensor y_pred" and wt: "wf_tensor y_true"
  let ?h = "maximum (scalar_sub 1 (tmul y_true y_pred)) 0"
  have len: "length (elems y_true) = length (elems y_pred)"
    using sh wp wt by (simp add: wf_tensor_def)
  have n: "length (elems y_true) = prod_list (shape y_pred)"
    using sh wt by (simp add: wf_tensor_def)
  have e: "elems ?h = map2 (\<lambda>z x. max (1 - z * x) 0) (elems y_true) (elems y_pred)"
    by (auto simp: maximum_def scalar_sub_def tmul_def)
  have l: "length (elems ?h) = prod_list (shape y_pred)"
    using len n by (simp add: e)
  have s: "sum_list (elems ?h) =
      (\<Sum>i<prod_list (shape y_pred). max (1 - elems y_true ! i * elems y_pred ! i) 0)"
    using sum_list_map2_nth [OF len, of "\<lambda>z x. max (1 - z * x) 0"] by (simp add: e n)
  have "reduce_mean ?h =
      (if prod_list (shape y_pred) = 0 then Inl Non_Finite
       else Inr ((\<Sum>i<prod_list (shape y_pred). max (1 - elems y_true ! i * elems y_pred ! i) 0)
                 / real (prod_list (shape y_pred))))"
    using l s by (rule reduce_mean_eq)
  then show "hinge_loss y_pred y_true =
        (let n = prod_list (shape y_pred) in
         if n = 0 then Inl Non_Finite
         else Inr ((\<Sum>i<n. max (1 - elems y_true ! i * elems y_pred ! i) 0) / real n))"
    using sh by (simp add: hinge_loss_def Let_def)
next
  show "hinge_loss \<lparr>shape = [1, 1], elems = [1/2]\<rparr> \<lparr>shape = [1, 1], elems = [1]\<rparr> = Inr (1/2)"
    by (simp add: hinge_loss_def reduce_mean_def maximum_def scalar_sub_def tmul_def)
qed

theorem hinge_loss_formula_witness:
  "shape \<lparr>shape = [2, 2], elems = [1/2, 2, -1, 0]\<rparr> = shape \<lparr>shape = [2, 2], elems = [1, 1, 1, -1]\<rparr> \<and>
   wf_tensor \<lparr>shape = [2, 2], elems = [1/2, 2, -1, 0]\<rparr> \<and>
   wf_tensor \<lparr>shape = [2, 2], elems = [1, 1, 1, -1]\<rparr> \<and>
   hinge_loss \<lparr>shape = [2, 2], elems = [1/2, 2, -1, 0]\<rparr> \<lparr>shape = [2, 2], elems = [1, 1, 1, -1]\<rparr>
     = Inr (7/8)"
  using hinge_loss_formula [of "\<lparr>shape = [2, 2], elems = [1/2, 2, -1, 0]\<rparr>"
      "\<lparr>shape = [2, 2], elems = [1, 1, 1, -1]\<rparr>"]
  by (simp add: wf_tensor_def lessThan_nat_numeral lessThan_Suc)

text \<open>Claim C6, as amended: every element of \<open>max (1 - y_true * y_pred) 0\<close> is at least 0,
  and for every pair of tensors of one shape that have at least one element the scalar
  returned by \<^verbatim>\<open>hinge_loss(y_pred, y_true)\<close> is at least 0.\<close>

theorem hinge_loss_nonneg:
  "list_all (\<lambda>x. 0 \<le> x) (elems (maximum (scalar_sub 1 (tmul y_true y_pred)) 0)) \<and>
   (shape y_pred = shape y_true \<longrightarrow> wf_tensor y_pred \<longrightarrow> wf_tensor y_true \<longrightarrow>
    elems y_pred \<noteq> [] \<longrightarrow> (\<exists>v. hinge_loss y_pred y_true = Inr v \<and> 0 \<le> v))"
proof (intro conjI impI)
  let ?h = "maximum (scalar_sub 1 (tmul y_true y_pred)) 0"
  show all: "list_all (\<lambda>x. 0 \<le> x) (elems ?h)"
    by (simp add: maximum_def list_all_iff)
  assume sh: "shape y_pred = shape y_true" and wp: "wf_tensor y_pred" and wt: "wf_tensor y_true"
    and ne: "elems y_pred \<noteq> []"
  have "length (elems ?h) = length (elems y_pred)"
    using sh wp wt by (simp add: maximum_def scalar_sub_def tmul_def wf_tensor_def)
  then have "elems ?h \<noteq> []"
    using ne by auto
  then have "\<exists>v. reduce_mean ?h = Inr v \<and> 0 \<le> v"
    using all by (rule reduce_mean_nonneg)
  then show "\<exists>v. hinge_loss y_pred y_true = Inr v \<and> 0 \<le> v"
    using sh by (simp add: hinge_loss_def)
qed

theorem hinge_loss_nonneg_witness:
  "list_all (\<lambda>x. 0 \<le> x)
     (elems (maximum (scalar_sub 1 (tmul \<lparr>shape = [1, 2], elems = [1, -1]\<rparr>
                                         \<lparr>shape = [1, 2], elems = [3, 2]\<rparr>)) 0)) \<and>
   shape \<lparr>shape = [1, 2], elems = [3, 2]\<rparr> = shape \<lparr>shape = [1, 2], elems = [1, -1]\<rparr> \<and>
   wf_tensor \<lparr>shape = [1, 2], elems = [3, 2]\<rparr> \<and> wf_tensor \<lparr>shape = [1, 2], elems = [1, -1]\<rparr> \<and>
   elems \<lparr>shape = [1, 2], elems = [3, 2]\<rparr> \<noteq> [] \<and>
   (\<exists>v. hinge_loss \<lparr>shape = [1, 2], elems = [3, 2]\<rparr> \<lparr>shape = [1, 2], elems = [1, -1]\<rparr> = Inr v
        \<and> 0 \<le> v)"
  using hinge_loss_nonneg [of "\<lparr>shape = [1, 2], elems = [1, -1]\<rparr>" "\<lparr>shape = [1, 2], elems = [3, 2]\<rparr>"]
  by (simp add: wf_tensor_def)

text \<open>Claim C6 as stated fails for a pair of tensors of shape \<^verbatim>\<open>[0, 1]\<close>: the elements
  are vacuously non-negative, and their mean is not a number.\<close>

theorem hinge_loss_empty:
  "shape \<lparr>shape = [0, 1], elems = []\<rparr> = shape \<lparr>shape = [0, 1], elems = []\<rparr> \<and>
   wf_tensor \<lparr>shape = [0, 1], elems = []\<rparr> \<and>
   hinge_loss \<lparr>shape = [0, 1], elems = []\<rparr> \<lparr>shape = [0, 1], elems = []\<rparr> = Inl Non_Finite"
  by (simp add: hinge_loss_def reduce_mean_def maximum_def scalar_sub_def tmul_def wf_tensor_def)

section \<open>Binary cross-entropy: the loss as a formula\<close>

text \<open>The docstring of \<^verbatim>\<open>binary_crossentropy\<close> gives the logistic loss as
  \<^verbatim>\<open>x - x * z + log(1 + exp(-x))\<close> and says that the stable form is used in its place. Over
  the reals the two are the same number.\<close>

lemma stable_logistic_loss:
  "max x 0 - x * z + ln (1 + exp (- \<bar>x\<bar>)) = x - x * z + ln (1 + exp (- x))" for x z :: real
proof (cases "0 \<le> x")
  case True
  then show ?thesis by (simp add: max_def)
next
  case False
  then have neg: "x < 0" by simp
  have "1 + exp (- x) = exp (- x) * (1 + exp x)"
    by (simp add: algebra_simps exp_minus_inverse flip: exp_add)
  then have "ln (1 + exp (- x)) = ln (exp (- x) * (1 + exp x))"
    by simp
  also have "\<dots> = - x + ln (1 + exp x)"
  proof -
    have "0 < 1 + exp x"
      by (simp add: add_pos_pos)
    then have "ln (exp (- x) * (1 + exp x)) = ln (exp (- x)) + ln (1 + exp x)"
      by (intro ln_mult_pos) simp_all
    then show ?thesis by simp
  qed
  finally show ?thesis
    using neg by (simp add: max_def)
qed

text \<open>Claim C3: for every pair of tensors of one shape, \<^verbatim>\<open>binary_crossentropy(y_pred, y_true)\<close>
  is the mean over all elements of \<open>max x 0 - x * z + ln (1 + exp (- \<bar>x\<bar>))\<close>, with \<open>x\<close> the
  element of \<^verbatim>\<open>y_pred\<close> and \<open>z\<close> the element of \<^verbatim>\<open>y_true\<close> at one index: the sum over all
  indices divided by the number of elements (non-finite when there is none).\<close>

theorem binary_crossentropy_formula:
  assumes "shape y_pred = shape y_true" and "wf_tensor y_pred" and "wf_tensor y_true"
  shows "binary_crossentropy y_pred y_true =
     (let n = prod_list (shape y_pred) in
      if n = 0 then Inl Non_Finite
      else Inr ((\<Sum>i<n. max (elems y_pred ! i) 0 - elems y_pred ! i * elems y_true ! i
                          + ln (1 + exp (- \<bar>elems y_pred ! i\<bar>))) / real n))"
proof -
  let ?f = "\<lambda>x z :: real. max x 0 - x * z + ln (1 + exp (- \<bar>x\<bar>))"
  let ?s = "sigmoid_cross_entropy_with_logits y_pred y_true"
  have len: "length (elems y_pred) = length (elems y_true)"
    using assms by (rule same_shape_length)
  have n: "length (elems y_pred) = prod_list (shape y_pred)"
    using assms(2) by (simp add: wf_tensor_def)
  have l: "length (elems ?s) = prod_list (shape y_pred)"
    using len n by (simp add: sigmoid_cross_entropy_with_logits_def)
  have s: "sum_list (elems ?s) = (\<Sum>i<prod_list (shape y_pred). ?f (elems y_pred ! i) (elems y_true ! i))"
    using sum_list_map2_nth [OF len, of ?f] by (simp add: sigmoid_cross_entropy_with_logits_def n)
  have "reduce_mean ?s =
      (if prod_list (shape y_pred) = 0 then Inl Non_Finite
       else Inr ((\<Sum>i<prod_list (shape y_pred). ?f (elems y_pred ! i) (elems y_true ! i))
                 / real (prod_list (shape y_pred))))"
    using l s by (rule reduce_mean_eq)
  then show ?thesis
    using assms(1) by (simp add: binary_crossentropy_def Let_def)
qed

text \<open>Logits \<^verbatim>\<open>[[0, 0]]\<close> against targets \<^verbatim>\<open>[[1, 0]]\<close>: both elements cost \<open>ln 2\<close>.\<close>

theorem binary_crossentropy_formula_witness:
  "shape \<lparr>shape = [1, 2], elems = [0, 0]\<rparr> = shape \<lparr>shape = [1, 2], elems = [1, 0]\<rparr> \<and>
   wf_tensor \<lparr>shape = [1, 2], elems = [0, 0]\<rparr> \<and> wf_tensor \<lparr>shape = [1, 2], elems = [1, 0]\<rparr> \<and>
   binary_crossentropy \<lparr>shape = [1, 2], elems = [0, 0]\<rparr> \<lparr>shape = [1, 2], elems = [1, 0]\<rparr>
     = Inr (ln 2)"
  using binary_crossentropy_formula [of "\<lparr>shape = [1, 2], elems = [0, 0]\<rparr>"
      "\<lparr>shape = [1, 2], elems = [1, 0]\<rparr>"]
  by (simp add: wf_tensor_def lessThan_nat_numeral lessThan_Suc)

section \<open>Lookup: names and callables\<close>

text \<open>Claim C8: \<^verbatim>\<open>get("mean_square")\<close> returns the same function as \<^verbatim>\<open>get(mean_square)\<close>, and
  so does the name of every objective of the module; an identifier that is already
  callable is returned unchanged.\<close>

theorem get_name_same_as_callable:
  "get preset (Name ''mean_square'') = get preset (Callable (Function ''mean_square'')) \<and>
   list_all (\<lambda>n. get preset (Name n) = get preset (Callable (Function n))) objective_names \<and>
   get preset (Callable f) = Inr f"
  by (simp add: get_def get_from_module_def module_globals_def objective_names_def)

text \<open>Claim C9, as amended: for every string that is not bound in the symbol table of the
  module, \<^verbatim>\<open>get\<close> fails with a not-found error that names the category and the
  identifier; in particular \<^verbatim>\<open>get("not_a_real_objective")\<close> fails so, that name being none
  of the interpreter's own.\<close>

theorem get_unbound_name_fails:
  "(module_globals preset s = None \<longrightarrow> get preset (Name s) = Inl (Not_Found ''objective'' s)) \<and>
   (preset ''not_a_real_objective'' = None \<longrightarrow>
      get preset (Name ''not_a_real_objective'')
        = Inl (Not_Found ''objective'' ''not_a_real_objective''))"
  by (simp add: get_def get_from_module_def module_globals_def objective_names_def map_add_def)

theorem get_unbound_name_fails_witness:
  "module_globals Map.empty ''mean_squared'' = None \<and>
   get Map.empty (Name ''mean_squared'') = Inl (Not_Found ''objective'' ''mean_squared'') \<and>
   (Map.empty :: string \<rightharpoonup> py_object) ''not_a_real_objective'' = None \<and>
   get Map.empty (Name ''not_a_real_objective'')
     = Inl (Not_Found ''objective'' ''not_a_real_objective'')"
  using get_unbound_name_fails [of Map.empty "''mean_squared''"]
  by (simp add: module_globals_def objective_names_def)

text \<open>Claim C9 as stated fails for a string that is bound in the module without naming
  an objective: \<^verbatim>\<open>import tensorflow as tf\<close> puts \<^verbatim>\<open>tf\<close> into \<^verbatim>\<open>globals()\<close>, and
  \<^verbatim>\<open>get("tf")\<close> returns the module instead of failing.\<close>

theorem get_tf_resolves:
  "''tf'' \<notin> set objective_names \<and> get Map.empty (Name ''tf'') = Inr (Module ''tensorflow'')"
  by (simp add: get_def get_from_module_def module_globals_def objective_names_def)

section \<open>Rows of a tensor\<close>

lemma length_chunks: "length (chunks n k xs) = k"
  by (induction k arbitrary: xs) simp_all

lemma chunks_map: "chunks n k (map f xs) = map (map f) (chunks n k xs)"
  by (induction k arbitrary: xs) (simp_all add: take_map drop_map)

lemma chunks_map2:
  "chunks n k (map2 f xs ys) = map2 (map2 f) (chunks n k xs) (chunks n k ys)"
  by (induction k arbitrary: xs ys) (simp_all add: take_map drop_map take_zip drop_zip)

lemma chunks_row_length:
  "length xs = k * n \<Longrightarrow> r \<in> set (chunks n k xs) \<Longrightarrow> length r = n"
proof (induction k arbitrary: xs)
  case 0
  then show ?case by simp
next
  case (Suc k)
  from Suc.prems(2) have "r = take n xs \<or> r \<in> set (chunks n k (drop n xs))"
    by simp
  then show ?case
  proof
    assume "r = take n xs"
    then show ?thesis using Suc.prems(1) by simp
  next
    assume "r \<in> set (chunks n k (drop n xs))"
    moreover have "length (drop n xs) = k * n"
      using Suc.prems(1) by simp
    ultimately show ?thesis by (intro Suc.IH)
  qed
qed

lemma chunks_row_subset:
  "r \<in> set (chunks n k xs) \<Longrightarrow> set r \<subseteq> set xs"
proof (induction k arbitrary: xs)
  case 0
  then show ?case by simp
next
  case (Suc k)
  from Suc.prems have "r = take n xs \<or> r \<in> set (chunks n k (drop n xs))"
    by simp
  then show ?case
  proof
    assume "r = take n xs"
    then show ?thesis by (simp add: set_take_subset)
  next
    assume "r \<in> set (chunks n k (drop n xs))"
    then have "set r \<subseteq> set (drop n xs)" by (rule Suc.IH)
    also have "\<dots> \<subseteq> set xs" by (rule set_drop_subset)
    finally show ?thesis .
  qed
qed

lemma chunks_concat:
  "length rs = k \<Longrightarrow> (\<And>r. r \<in> set rs \<Longrightarrow> length r = n) \<Longrightarrow> chunks n k (concat rs) = rs"
proof (induction rs arbitrary: k)
  case Nil
  then show ?case by simp
next
  case (Cons r rs)
  then obtain k' where k: "k = Suc k'" and l: "length rs = k'"
    by (cases k) auto
  have "length r = n"
    using Cons.prems(2) by simp
  moreover have "chunks n k' (concat rs) = rs"
    using l Cons.prems(2) by (intro Cons.IH) simp_all
  ultimately show ?case
    by (simp add: k)
qed

lemma wf_tensor_length:
  assumes "wf_tensor a" and "shape a \<noteq> []"
  shows "length (elems a) = prod_list (butlast (shape a)) * last (shape a)"
proof -
  have "prod_list (shape a) = prod_list (butlast (shape a) @ [last (shape a)])"
    using assms(2) by simp
  then show ?thesis
    using assms(1) by (simp add: wf_tensor_def)
qed

lemma length_rows: "length (rows a) = prod_list (butlast (shape a))"
  by (simp add: rows_def length_chunks)

lemma row_length:
  "wf_tensor a \<Longrightarrow> shape a \<noteq> [] \<Longrightarrow> r \<in> set (rows a) \<Longrightarrow> length r = last (shape a)"
  unfolding rows_def by (rule chunks_row_length [OF wf_tensor_length])

lemma row_subset: "r \<in> set (rows a) \<Longrightarrow> set r \<subseteq> set (elems a)"
  unfolding rows_def by (rule chunks_row_subset)

section \<open>Categorical cross-entropy, row by row\<close>

lemma divide_rows_sum:
  "divide_rows a (reduce_sum_last a keep) =
     (if list_ex (\<lambda>r. r \<noteq> [] \<and> sum_list r = 0) (rows a) then Inl Non_Finite
      else Inr \<lparr>shape = shape a,
                elems = concat (map (\<lambda>r. map (\<lambda>x. x / sum_list r) r) (rows a))\<rparr>)"
proof -
  have z: "zip (rows a) (map sum_list (rows a)) = map (\<lambda>r. (r, sum_list r)) (rows a)"
    by (simp add: zip_map2 zip_same_conv_map)
  show ?thesis
    by (simp add: divide_rows_def reduce_sum_last_def z list_ex_iff o_def)
qed

lemma tlog_clip:
  assumes "0 < lo"
  shows "tlog (clip_by_value a lo hi) =
     Inr \<lparr>shape = shape a, elems = map (\<lambda>x. ln (max (min x hi) lo)) (elems a)\<rparr>"
proof -
  have "\<not> list_ex (\<lambda>x. x \<le> 0) (elems (clip_by_value a lo hi))"
    using assms by (auto simp: clip_by_value_def list_ex_iff)
  then show ?thesis
    by (simp add: tlog_def) (simp add: clip_by_value_def o_def)
qed

lemma rows_divided:
  assumes "wf_tensor a" and "shape a \<noteq> []"
  shows "rows \<lparr>shape = shape a, elems = concat (map (\<lambda>r. map (f r) r) (rows a))\<rparr>
           = map (\<lambda>r. map (f r) r) (rows a)"
proof -
  have "chunks (last (shape a)) (prod_list (butlast (shape a)))
          (concat (map (\<lambda>r. map (f r) r) (rows a))) = map (\<lambda>r. map (f r) r) (rows a)"
  proof (rule chunks_concat)
    show "length (map (\<lambda>r. map (f r) r) (rows a)) = prod_list (butlast (shape a))"
      by (simp add: length_rows)
  next
    fix r assume "r \<in> set (map (\<lambda>r. map (f r) r) (rows a))"
    then obtain r' where "r' \<in> set (rows a)" and "r = map (f r') r'"
      by auto
    then show "length r = last (shape a)"
      using row_length [OF assms] by simp
  qed
  then show ?thesis
    by (simp add: rows_def)
qed

text \<open>The pipeline of tensor operations in \<^verbatim>\<open>categorical_crossentropy\<close>, unfolded into
  sums over the rows and over the entries of each row.\<close>

lemma categorical_crossentropy_rows:
  assumes eps: "0 < epsilon"
    and rank: "shape y_pred \<noteq> []" and sh: "shape y_pred = shape y_true"
    and wp: "wf_tensor y_pred" and wt: "wf_tensor y_true"
  shows "categorical_crossentropy epsilon y_pred y_true =
     (if list_ex (\<lambda>r. r \<noteq> [] \<and> sum_list r = 0) (rows y_pred)
         \<or> prod_list (butlast (shape y_pred)) = 0 then Inl Non_Finite
      else Inr ((\<Sum>i<prod_list (butlast (shape y_pred)).
                   - (\<Sum>j<length (rows y_pred ! i).
                        rows y_true ! i ! j *
                        ln (max (min (rows y_pred ! i ! j / sum_list (rows y_pred ! i))
                                 (1 - epsilon)) epsilon)))
                / real (prod_list (butlast (shape y_pred)))))"
proof (cases "list_ex (\<lambda>r. r \<noteq> [] \<and> sum_list r = 0) (rows y_pred)")
  case True
  then show ?thesis
    using rank sh by (simp add: categorical_crossentropy_def divide_rows_sum bind_fault_def)
next
  case False
  let ?k = "prod_list (butlast (shape y_pred))"
  let ?c = "\<lambda>r x. ln (max (min (x / sum_list r) (1 - epsilon)) epsilon)"
  define q where "q = \<lparr>shape = shape y_pred,
             elems = concat (map (\<lambda>r. map (\<lambda>x. x / sum_list r) r) (rows y_pred))\<rparr>"
  define l where "l = \<lparr>shape = shape q,
             elems = map (\<lambda>x. ln (max (min x (1 - epsilon)) epsilon)) (elems q)\<rparr>"
  let ?F = "tneg (reduce_sum_last (tmul y_true l) False)"
  have dq: "divide_rows y_pred (reduce_sum_last y_pred True) = Inr q"
    using False by (simp add: divide_rows_sum q_def)
  have tl: "tlog (clip_by_value q epsilon (1 - epsilon)) = Inr l"
    using eps by (simp add: tlog_clip l_def)
  have cce: "categorical_crossentropy epsilon y_pred y_true = reduce_mean ?F"
    using rank sh by (simp add: categorical_crossentropy_def dq tl bind_fault_def)
  have shq: "shape q = shape y_pred"
    by (simp add: q_def)
  have shl: "shape l = shape y_pred"
    by (simp add: l_def shq)
  have rq: "rows q = map (\<lambda>r. map (\<lambda>x. x / sum_list r) r) (rows y_pred)"
    unfolding q_def using wp rank by (rule rows_divided)
  have "rows l = map (map (\<lambda>x. ln (max (min x (1 - epsilon)) epsilon))) (rows q)"
    by (simp add: rows_def l_def chunks_map)
  then have rl: "rows l = map (\<lambda>r. map (?c r) r) (rows y_pred)"
    by (simp add: rq o_def)
  have rm: "rows (tmul y_true l) = map2 (map2 (\<lambda>x y. x * y)) (rows y_true) (rows l)"
    using sh shl by (simp add: rows_def tmul_def chunks_map2)
  have eF: "elems ?F =
      map2 (\<lambda>t r. - sum_list (map2 (\<lambda>x y. x * y) t (map (?c r) r))) (rows y_true) (rows y_pred)"
    by (simp add: tneg_def reduce_sum_last_def rm rl zip_map2 o_def split_def)
  have lr: "length (rows y_true) = length (rows y_pred)"
    using sh by (simp add: length_rows)
  have lF: "length (elems ?F) = ?k"
    using lr by (simp add: eF length_rows)
  have "sum_list (elems ?F) =
      (\<Sum>i<length (rows y_true).
          - sum_list (map2 (\<lambda>x y. x * y) (rows y_true ! i) (map (?c (rows y_pred ! i)) (rows y_pred ! i))))"
    unfolding eF using lr by (rule sum_list_map2_nth)
  also have "\<dots> = (\<Sum>i<?k. - (\<Sum>j<length (rows y_pred ! i).
        rows y_true ! i ! j * ?c (rows y_pred ! i) (rows y_pred ! i ! j)))"
  proof (rule sum.cong)
    show "{..<length (rows y_true)} = {..<?k}"
      using sh by (simp add: length_rows)
  next
    fix i assume "i \<in> {..<?k}"
    then have i: "i < length (rows y_pred)" "i < length (rows y_true)"
      using sh by (simp_all add: length_rows)
    have "length (rows y_true ! i) = last (shape y_true)"
      using wt rank sh i(2) by (intro row_length) simp_all
    moreover have "length (rows y_pred ! i) = last (shape y_pred)"
      using wp rank i(1) by (intro row_length) simp_all
    ultimately have len: "length (rows y_true ! i) = length (rows y_pred ! i)"
      using sh by simp
    have "sum_list (map2 (\<lambda>x y. x * y) (rows y_true ! i) (map (?c (rows y_pred ! i)) (rows y_pred ! i)))
        = (\<Sum>j<length (rows y_true ! i).
             rows y_true ! i ! j * map (?c (rows y_pred ! i)) (rows y_pred ! i) ! j)"
      using len by (intro sum_list_map2_nth) simp
    also have "\<dots> = (\<Sum>j<length (rows y_pred ! i).
        rows y_true ! i ! j * ?c (rows y_pred ! i) (rows y_pred ! i ! j))"
      using len by (intro sum.cong) simp_all
    finally show "- sum_list (map2 (\<lambda>x y. x * y) (rows y_true ! i)
                      (map (?c (rows y_pred ! i)) (rows y_pred ! i)))
        = - (\<Sum>j<length (rows y_pred ! i).
               rows y_true ! i ! j * ?c (rows y_pred ! i) (rows y_pred ! i ! j))"
      by simp
  qed
  finally have sF: "sum_list (elems ?F) = (\<Sum>i<?k. - (\<Sum>j<length (rows y_pred ! i).
        rows y_true ! i ! j * ?c (rows y_pred ! i) (rows y_pred ! i ! j)))" .
  show ?thesis
    unfolding cce using False reduce_mean_eq [OF lF sF] by simp
qed

lemma clip_into_max_min: "lo \<le> hi \<Longrightarrow> clip_into lo hi x = max (min x hi) lo"
  by (auto simp: clip_into_def max_def min_def)

text \<open>Claim C1: for every pair of tensors of one shape (of rank at least 1, so that there
  is a last axis), \<^verbatim>\<open>categorical_crossentropy(y_pred, y_true)\<close> computes the four steps of
  the specification: each row of \<^verbatim>\<open>y_pred\<close> divided by its sum, every entry clipped into
  \<open>[epsilon, 1 - epsilon]\<close>, the negated sum over the last axis of \<^verbatim>\<open>y_true\<close> times the
  logarithm, and the mean of that over all rows. The configured epsilon is a small positive
  number, here any \<open>epsilon\<close> with \<open>0 < epsilon \<le> 1/2\<close>, for which the interval is not
  empty.\<close>

theorem categorical_crossentropy_four_steps:
  assumes "0 < epsilon" and "epsilon \<le> 1 / 2"
    and "shape y_pred \<noteq> []" and "shape y_pred = shape y_true"
    and "wf_tensor y_pred" and "wf_tensor y_true"
  shows "categorical_crossentropy epsilon y_pred y_true
           = four_step_crossentropy epsilon y_pred y_true"
proof -
  have "epsilon \<le> 1 - epsilon"
    using assms(2) by simp
  then have "clip_into epsilon (1 - epsilon) x = max (min x (1 - epsilon)) epsilon" for x
    by (rule clip_into_max_min)
  then show ?thesis
    using categorical_crossentropy_rows [OF assms(1) assms(3-6)]
    by (simp add: four_step_crossentropy_def row_crossentropy_def Let_def)
qed

text \<open>One row \<^verbatim>\<open>[[1, 1]]\<close> against the label \<^verbatim>\<open>[[1, 0]]\<close>: the row is renormalised to
  a half each, which the clipping leaves alone, and the loss is \<open>ln 2\<close>.\<close>

theorem categorical_crossentropy_four_steps_witness:
  "(0::real) < 1 / 4 \<and> (1::real) / 4 \<le> 1 / 2 \<and>
   shape \<lparr>shape = [1, 2], elems = [1, 1]\<rparr> \<noteq> [] \<and>
   shape \<lparr>shape = [1, 2], elems = [1, 1]\<rparr> = shape \<lparr>shape = [1, 2], elems = [1, 0]\<rparr> \<and>
   wf_tensor \<lparr>shape = [1, 2], elems = [1, 1]\<rparr> \<and> wf_tensor \<lparr>shape = [1, 2], elems = [1, 0]\<rparr> \<and>
   categorical_crossentropy (1 / 4) \<lparr>shape = [1, 2], elems = [1, 1]\<rparr>
       \<lparr>shape = [1, 2], elems = [1, 0]\<rparr>
     = four_step_crossentropy (1 / 4) \<lparr>shape = [1, 2], elems = [1, 1]\<rparr>
         \<lparr>shape = [1, 2], elems = [1, 0]\<rparr> \<and>
   four_step_crossentropy (1 / 4) \<lparr>shape = [1, 2], elems = [1, 1]\<rparr>
       \<lparr>shape = [1, 2], elems = [1, 0]\<rparr> = Inr (ln 2)"
proof -
  have "four_step_crossentropy (1 / 4) \<lparr>shape = [1, 2], elems = [1, 1]\<rparr>
       \<lparr>shape = [1, 2], elems = [1, 0]\<rparr> = Inr (ln 2)"
    by (simp add: four_step_crossentropy_def row_crossentropy_def rows_def clip_into_def
        lessThan_nat_numeral lessThan_Suc ln_div)
  then show ?thesis
    using categorical_crossentropy_four_steps [of "1 / 4" "\<lparr>shape = [1, 2], elems = [1, 1]\<rparr>"
      "\<lparr>shape = [1, 2], elems = [1, 0]\<rparr>"]
    by (simp add: wf_tensor_def)
qed

text \<open>Claim C4, as amended: whenever \<open>p\<close> is a probability distribution in every row
  (non-negative entries, rows summing to 1), \<open>t\<close> has non-negative entries, and the
  tensors have at least one element, \<^verbatim>\<open>categorical_crossentropy(p, t)\<close> returns a scalar
  that is at least 0 (for a configured epsilon with \<open>0 < epsilon \<le> 1\<close>).\<close>

theorem categorical_crossentropy_nonneg:
  assumes eps: "0 < epsilon" "epsilon \<le> 1"
    and rank: "shape y_pred \<noteq> []" and sh: "shape y_pred = shape y_true"
    and wp: "wf_tensor y_pred" and wt: "wf_tensor y_true"
    and vp: "valid_distribution y_pred" and nt: "nonnegative y_true"
    and ne: "elems y_pred \<noteq> []"
  shows "\<exists>v. categorical_crossentropy epsilon y_pred y_true = Inr v \<and> 0 \<le> v"
proof -
  let ?k = "prod_list (butlast (shape y_pred))"
  let ?c = "\<lambda>i j. max (min (rows y_pred ! i ! j / sum_list (rows y_pred ! i)) (1 - epsilon)) epsilon"
  let ?row = "\<lambda>i. \<Sum>j<length (rows y_pred ! i). rows y_true ! i ! j * ln (?c i j)"
  have "\<not> list_ex (\<lambda>r. r \<noteq> [] \<and> sum_list r = 0) (rows y_pred)"
    using vp by (auto simp: valid_distribution_def list_ex_iff list_all_iff)
  moreover have k: "?k \<noteq> 0"
  proof
    assume "?k = 0"
    then have "length (elems y_pred) = 0"
      using wf_tensor_length [OF wp rank] by simp
    then show False
      using ne by simp
  qed
  ultimately have cce: "categorical_crossentropy epsilon y_pred y_true
      = Inr ((\<Sum>i<?k. - ?row i) / real ?k)"
    using categorical_crossentropy_rows [OF eps(1) rank sh wp wt] by simp
  have "?row i \<le> 0" if "i < ?k" for i
  proof (rule sum_nonpos)
    fix j assume "j \<in> {..<length (rows y_pred ! i)}"
    then have j: "j < length (rows y_pred ! i)" by simp
    have it: "rows y_true ! i \<in> set (rows y_true)"
      using that sh by (simp add: length_rows)
    have "length (rows y_true ! i) = last (shape y_true)"
      using wt rank sh it by (intro row_length) simp_all
    moreover have "length (rows y_pred ! i) = last (shape y_pred)"
      using wp rank that by (intro row_length) (simp_all add: length_rows)
    ultimately have "j < length (rows y_true ! i)"
      using j sh by simp
    then have "rows y_true ! i ! j \<in> set (elems y_true)"
      using row_subset [OF it] by auto
    then have t: "0 \<le> rows y_true ! i ! j"
      using nt by (simp add: nonnegative_def list_all_iff)
    have "0 < ?c i j" and "?c i j \<le> 1"
      using eps by (simp_all add: max_def min_def)
    then have "ln (?c i j) \<le> 0"
      by simp
    with t show "rows y_true ! i ! j * ln (?c i j) \<le> 0"
      by (rule mult_nonneg_nonpos)
  qed
  then have "0 \<le> (\<Sum>i<?k. - ?row i)"
    by (intro sum_nonneg) simp
  then have "0 \<le> (\<Sum>i<?k. - ?row i) / real ?k"
    by simp
  with cce show ?thesis
    by simp
qed

theorem categorical_crossentropy_nonneg_witness:
  "(0::real) < 1 / 4 \<and> (1::real) / 4 \<le> 1 \<and>
   shape \<lparr>shape = [1, 2], elems = [1 / 2, 1 / 2]\<rparr> \<noteq> [] \<and>
   shape \<lparr>shape = [1, 2], elems = [1 / 2, 1 / 2]\<rparr> = shape \<lparr>shape = [1, 2], elems = [1, 0]\<rparr> \<and>
   wf_tensor \<lparr>shape = [1, 2], elems = [1 / 2, 1 / 2]\<rparr> \<and>
   wf_tensor \<lparr>shape = [1, 2], elems = [1, 0]\<rparr> \<and>
   valid_distribution \<lparr>shape = [1, 2], elems = [1 / 2, 1 / 2]\<rparr> \<and>
   nonnegative \<lparr>shape = [1, 2], elems = [1, 0]\<rparr> \<and>
   elems \<lparr>shape = [1, 2], elems = [1 / 2, 1 / 2]\<rparr> \<noteq> [] \<and>
   (\<exists>v. categorical_crossentropy (1 / 4) \<lparr>shape = [1, 2], elems = [1 / 2, 1 / 2]\<rparr>
          \<lparr>shape = [1, 2], elems = [1, 0]\<rparr> = Inr v \<and> 0 \<le> v)"
  using categorical_crossentropy_nonneg [of "1 / 4" "\<lparr>shape = [1, 2], elems = [1 / 2, 1 / 2]\<rparr>"
      "\<lparr>shape = [1, 2], elems = [1, 0]\<rparr>"]
  by (simp add: wf_tensor_def valid_distribution_def nonnegative_def rows_def)

text \<open>Claim C4 as stated fails for an empty batch of shape \<^verbatim>\<open>[0, 2]\<close>: all of its rows,
  there being none, are distributions, and the mean over the batch is not a number.\<close>

theorem categorical_crossentropy_empty_batch:
  "valid_distribution \<lparr>shape = [0, 2], elems = []\<rparr> \<and>
   nonnegative \<lparr>shape = [0, 2], elems = []\<rparr> \<and>
   wf_tensor \<lparr>shape = [0, 2], elems = []\<rparr> \<and>
   categorical_crossentropy (1 / 10 ^ 10) \<lparr>shape = [0, 2], elems = []\<rparr>
       \<lparr>shape = [0, 2], elems = []\<rparr> = Inl Non_Finite"
  by (simp add: valid_distribution_def nonnegative_def wf_tensor_def rows_def
      categorical_crossentropy_def divide_rows_def reduce_sum_last_def clip_by_value_def
      tlog_def tmul_def tneg_def reduce_mean_def bind_fault_def)

section \<open>Softmax cross-entropy against the naive composition\<close>

lemma sum_list_exp_pos: "xs \<noteq> [] \<Longrightarrow> 0 < sum_list (map exp xs)" for xs :: "real list"
proof (induction xs)
  case Nil
  then show ?case by simp
next
  case (Cons x xs)
  have "0 \<le> sum_list (map exp xs)"
    by (rule sum_list_nonneg) auto
  then show ?case
    by (simp add: add_pos_nonneg)
qed

lemma sum_list_exp_shift:
  "sum_list (map exp xs) = exp m * sum_list (map exp (map (\<lambda>x. x - m) xs))" for xs :: "real list"
proof -
  have e: "exp m * exp (x - m) = exp x" for x :: real
    by (simp flip: exp_add)
  show ?thesis
    by (induction xs) (simp_all add: e algebra_simps)
qed

lemma ln_softmax_shift:
  assumes "xs \<noteq> []" and "j < length xs"
  shows "ln (softmax xs ! j) = (xs ! j - m) - ln (sum_list (map exp (map (\<lambda>x. x - m) xs)))"
proof -
  let ?S = "sum_list (map exp (map (\<lambda>x. x - m) xs))"
  have S: "0 < ?S"
    using assms(1) by (intro sum_list_exp_pos) simp
  have "softmax xs ! j = exp (xs ! j) / (exp m * ?S)"
    using assms(2) sum_list_exp_shift [of xs m] by (simp add: softmax_def)
  also have "\<dots> = exp (xs ! j - m) / ?S"
    by (simp add: exp_diff)
  finally have "ln (softmax xs ! j) = ln (exp (xs ! j - m) / ?S)"
    by simp
  also have "\<dots> = (xs ! j - m) - ln ?S"
    using S by (simp add: ln_div)
  finally show ?thesis .
qed

lemma xent_row_naive:
  assumes "length logits = length labels"
  shows "xent_row logits labels = naive_row logits labels"
proof (cases "logits = []")
  case True
  then show ?thesis
    by (simp add: xent_row_def naive_row_def)
next
  case False
  define m where "m = fold max (tl logits) (hd logits)"
  define shifted where "shifted = map (\<lambda>x. x - m) logits"
  define log_sum where "log_sum = ln (sum_list (map exp shifted))"
  have len: "length labels = length shifted"
    using assms by (simp add: shifted_def)
  have "xent_row logits labels = sum_list (map2 (\<lambda>l s. l * (log_sum - s)) labels shifted)"
    using False by (simp add: xent_row_def Let_def m_def shifted_def log_sum_def)
  also have "\<dots> = (\<Sum>j<length labels. labels ! j * (log_sum - shifted ! j))"
    using len by (rule sum_list_map2_nth)
  also have "\<dots> = (\<Sum>j<length logits. - (labels ! j * ln (softmax logits ! j)))"
  proof (rule sum.cong)
    show "{..<length labels} = {..<length logits}"
      using assms by simp
  next
    fix j assume "j \<in> {..<length logits}"
    then have j: "j < length logits" by simp
    have "ln (softmax logits ! j) = (logits ! j - m) - log_sum"
      unfolding log_sum_def shifted_def using False j by (rule ln_softmax_shift)
    moreover have "shifted ! j = logits ! j - m"
      using j by (simp add: shifted_def)
    ultimately show "labels ! j * (log_sum - shifted ! j) = - (labels ! j * ln (softmax logits ! j))"
      by (simp only: minus_diff_eq flip: mult_minus_right)
  qed
  also have "\<dots> = naive_row logits labels"
    by (simp add: naive_row_def sum_negf)
  finally show ?thesis .
qed

text \<open>Claim C2: for every pair of tensors of one shape \<^verbatim>\<open>[batch, num_classes]\<close>,
  \<^verbatim>\<open>softmax_categorical_crossentropy(y_pred, y_true)\<close>, computed by the fused primitive,
  equals the mean over the batch of the negated sum over the classes of \<^verbatim>\<open>y_true\<close> times
  the logarithm of the softmax of \<^verbatim>\<open>y_pred\<close>.\<close>

theorem softmax_categorical_crossentropy_naive:
  assumes rank: "length (shape y_pred) = 2" and sh: "shape y_pred = shape y_true"
    and wp: "wf_tensor y_pred" and wt: "wf_tensor y_true"
  shows "softmax_categorical_crossentropy y_pred y_true
           = naive_softmax_crossentropy y_pred y_true"
proof -
  let ?x = "softmax_cross_entropy_with_logits y_pred y_true"
  obtain b n where s: "shape y_pred = [b, n]"
    using rank by (cases "shape y_pred"; cases "tl (shape y_pred)") auto
  have ne: "shape y_pred \<noteq> []"
    by (simp add: s)
  have bl: "butlast (shape y_pred) = [b]"
    by (simp add: s)
  have lp: "length (rows y_pred) = b"
    by (simp add: length_rows bl)
  have lt: "length (rows y_true) = b"
    by (simp add: length_rows bl flip: sh)
  have lx: "length (elems ?x) = b"
    by (simp add: softmax_cross_entropy_with_logits_def lp lt)
  have "sum_list (elems ?x) = (\<Sum>i<length (rows y_pred). xent_row (rows y_pred ! i) (rows y_true ! i))"
    unfolding softmax_cross_entropy_with_logits_def using lp lt
    by (simp add: sum_list_map2_nth)
  also have "\<dots> = (\<Sum>i<b. naive_row (rows y_pred ! i) (rows y_true ! i))"
  proof (rule sum.cong)
    show "{..<length (rows y_pred)} = {..<b}"
      by (simp add: lp)
  next
    fix i assume "i \<in> {..<b}"
    then have i: "i < b" by simp
    have "length (rows y_pred ! i) = last (shape y_pred)"
      using wp ne i lp by (intro row_length) simp_all
    moreover have "length (rows y_true ! i) = last (shape y_true)"
      using wt ne sh i lt by (intro row_length) simp_all
    ultimately have "length (rows y_pred ! i) = length (rows y_true ! i)"
      using sh by simp
    then show "xent_row (rows y_pred ! i) (rows y_true ! i) = naive_row (rows y_pred ! i) (rows y_true ! i)"
      by (rule xent_row_naive)
  qed
  finally have sx: "sum_list (elems ?x) = (\<Sum>i<b. naive_row (rows y_pred ! i) (rows y_true ! i))" .
  have hd: "hd (shape y_pred) = b"
    by (simp add: s)
  have sce: "softmax_categorical_crossentropy y_pred y_true = reduce_mean ?x"
    using rank sh by (simp add: softmax_categorical_crossentropy_def)
  show ?thesis
    unfolding sce naive_softmax_crossentropy_def Let_def hd
    using lx sx by (rule reduce_mean_eq)
qed

text \<open>The scenario of the specification: logits \<^verbatim>\<open>[[2.0, -1.0, 0.0]]\<close> against the
  one-hot label \<^verbatim>\<open>[[1.0, 0.0, 0.0]]\<close> give minus the logarithm of the first entry of the
  softmax.\<close>

theorem softmax_categorical_crossentropy_naive_witness:
  "length (shape \<lparr>shape = [1, 3], elems = [2, -1, 0]\<rparr>) = 2 \<and>
   shape \<lparr>shape = [1, 3], elems = [2, -1, 0]\<rparr> = shape \<lparr>shape = [1, 3], elems = [1, 0, 0]\<rparr> \<and>
   wf_tensor \<lparr>shape = [1, 3], elems = [2, -1, 0]\<rparr> \<and>
   wf_tensor \<lparr>shape = [1, 3], elems = [1, 0, 0]\<rparr> \<and>
   softmax_categorical_crossentropy \<lparr>shape = [1, 3], elems = [2, -1, 0]\<rparr>
       \<lparr>shape = [1, 3], elems = [1, 0, 0]\<rparr>
     = naive_softmax_crossentropy \<lparr>shape = [1, 3], elems = [2, -1, 0]\<rparr>
         \<lparr>shape = [1, 3], elems = [1, 0, 0]\<rparr> \<and>
   naive_softmax_crossentropy \<lparr>shape = [1, 3], elems = [2, -1, 0]\<rparr>
       \<lparr>shape = [1, 3], elems = [1, 0, 0]\<rparr>
     = Inr (- ln (exp 2 / (exp 2 + exp (- 1) + 1)))"
proof -
  have "naive_softmax_crossentropy \<lparr>shape = [1, 3], elems = [2, -1, 0]\<rparr>
       \<lparr>shape = [1, 3], elems = [1, 0, 0]\<rparr> = Inr (- ln (exp 2 / (exp 2 + exp (- 1) + 1)))"
    by (simp add: naive_softmax_crossentropy_def naive_row_def softmax_def rows_def
        lessThan_nat_numeral lessThan_Suc add.assoc)
  then show ?thesis
    using softmax_categorical_crossentropy_naive [of "\<lparr>shape = [1, 3], elems = [2, -1, 0]\<rparr>"
      "\<lparr>shape = [1, 3], elems = [1, 0, 0]\<rparr>"]
    by (simp add: wf_tensor_def)
qed

end
